theory Spec2Isabelle
  imports Main "HOL-Library.Word" "HOL-Library.Sublist"
begin

unbundle bit_operations_syntax

section \<open>Telemetry session of the emulator core (core/telemetry\_session.cpp)\<close>

text \<open>
  The translation unit defines the identifier store (\<open>GenerateTelemetryId\<close>,
  \<open>GetTelemetryId\<close>, \<open>RegenerateTelemetryId\<close>), the login check \<open>VerifyLogin\<close> and the
  constructor and destructor of \<open>TelemetrySession\<close>. Everything else it touches (files,
  the log, settings, build metadata, CPU detection, the application loader, the field
  collection and its visitors, the web service, the system clock) lives in other
  translation units; those parts are either parameters of the model or small models of
  their own, each marked as such.
\<close>

subsection \<open>Machine integers and raw bytes\<close>

type_synonym u8 = "8 word"
type_synonym u64 = "64 word"
type_synonym s64 = "64 word"
type_synonym s32 = "32 word"

text \<open>
  \<open>WriteBytes(&id, sizeof(u64))\<close> and \<open>ReadBytes(&id, sizeof(u64))\<close> copy the object
  representation of a \<open>u64\<close>: eight bytes, least significant first on the x64 targets of
  the emulator.
\<close>

definition u64_bytes :: "u64 \<Rightarrow> u8 list" where
  "u64_bytes v = map (\<lambda>i. ucast (drop_bit (8 * i) v)) [0..<8]"

fun bytes_u64 :: "u8 list \<Rightarrow> u64" where
  "bytes_u64 [] = 0"
| "bytes_u64 (b # bs) = ucast b OR push_bit 8 (bytes_u64 bs)"

subsection \<open>The host: files, open failures, the log\<close>

datatype OpenMode = rb | wb

record World =
  files :: "string \<Rightarrow> u8 list option"
  open_fails :: "string \<Rightarrow> OpenMode \<Rightarrow> bool"
  log_out :: "string list"

text \<open>
  Modelled from the spec: \<open>FileUtil::Exists\<close>, \<open>FileUtil::IOFile\<close> and \<open>LOG_ERROR\<close>
  (common/file\_util.h, common/logging) are not in this translation unit. A file is its
  byte content; \<open>open_fails\<close> is the host's answer to an open request (permissions, a
  missing directory, no descriptors left). Opening with \<open>"rb"\<close> needs an existing file;
  opening with \<open>"wb"\<close> creates the file or truncates it to length zero; an open that
  fails changes nothing on disk. Each handle of this translation unit is used for one
  transfer right after it is opened, so a read starts at offset zero and a write goes to
  the end of the just truncated file. A read that gets fewer bytes than asked leaves the
  rest of the destination as it was. \<open>LOG_ERROR\<close> appends the formatted message.
\<close>

definition Exists :: "World \<Rightarrow> string \<Rightarrow> bool" where
  "Exists w filename = (files w filename \<noteq> None)"

datatype IOFile = IOFile (file_path: string) (IsOpen: bool)

definition IOFile_ctor :: "World \<Rightarrow> string \<Rightarrow> OpenMode \<Rightarrow> IOFile \<times> World" where
  "IOFile_ctor w filename openmode =
     (if open_fails w filename openmode then (IOFile filename False, w)
      else case openmode of
        rb \<Rightarrow> (IOFile filename (files w filename \<noteq> None), w)
      | wb \<Rightarrow> (IOFile filename True, w\<lparr>files := (files w)(filename \<mapsto> [])\<rparr>))"

definition ReadBytes :: "World \<Rightarrow> IOFile \<Rightarrow> u8 list \<Rightarrow> nat \<Rightarrow> u8 list" where
  "ReadBytes w file dest n =
     (if \<not> IsOpen file then dest
      else case files w (file_path file) of
        None \<Rightarrow> dest
      | Some content \<Rightarrow> (let got = take n content in got @ drop (length got) dest))"

definition WriteBytes :: "World \<Rightarrow> IOFile \<Rightarrow> u8 list \<Rightarrow> World" where
  "WriteBytes w file src =
     (if \<not> IsOpen file then w
      else w\<lparr>files := (files w)(file_path file \<mapsto>
             (case files w (file_path file) of None \<Rightarrow> [] | Some content \<Rightarrow> content) @ src)\<rparr>)"

definition LOG_ERROR :: "World \<Rightarrow> string \<Rightarrow> World" where
  "LOG_ERROR w msg = w\<lparr>log_out := log_out w @ [msg]\<rparr>"

subsection \<open>The identifier store\<close>

definition GenerateTelemetryId :: u64 where
  "GenerateTelemetryId = (let telemetry_id = 0 in telemetry_id)"

text \<open>
  \<open>filename\<close> is \<open>FileUtil::GetUserPath(D_CONFIG_IDX) + "telemetry_id"\<close>; the user's
  configuration directory is the parameter \<open>user_path\<close>.
\<close>

definition telemetry_id_filename :: "string \<Rightarrow> string" where
  "telemetry_id_filename user_path = user_path @ ''telemetry_id''"

definition GetTelemetryId :: "string \<Rightarrow> World \<Rightarrow> u64 \<times> World" where
  "GetTelemetryId user_path w =
     (let telemetry_id = (0 :: u64);
          filename = telemetry_id_filename user_path
      in if Exists w filename then
           (let (file, w1) = IOFile_ctor w filename rb
            in if \<not> IsOpen file then
                 (0, LOG_ERROR w1 (''failed to open telemetry_id: '' @ filename))
               else
                 (bytes_u64 (ReadBytes w1 file (u64_bytes telemetry_id) 8), w1))
         else
           (let (file, w1) = IOFile_ctor w filename wb
            in if \<not> IsOpen file then
                 (0, LOG_ERROR w1 (''failed to open telemetry_id: '' @ filename))
               else
                 (let telemetry_id = GenerateTelemetryId;
                      w2 = WriteBytes w1 file (u64_bytes telemetry_id)
                  in (telemetry_id, w2))))"

definition RegenerateTelemetryId :: "string \<Rightarrow> World \<Rightarrow> u64 \<times> World" where
  "RegenerateTelemetryId user_path w =
     (let new_telemetry_id = GenerateTelemetryId;
          filename = telemetry_id_filename user_path;
          (file, w1) = IOFile_ctor w filename wb
      in if \<not> IsOpen file then
           (0, LOG_ERROR w1 (''failed to open telemetry_id: '' @ filename))
         else
           (new_telemetry_id, WriteBytes w1 file (u64_bytes new_telemetry_id)))"

subsection \<open>Build configuration and collaborators\<close>

text \<open>
  The preprocessor symbols the translation unit tests: \<open>ENABLE_WEB_SERVICE\<close>,
  \<open>__APPLE__\<close>, \<open>_WIN32\<close>, and the three spellings \<open>__linux__\<close>, \<open>linux\<close>, \<open>__linux\<close>.
\<close>

record Build =
  ENABLE_WEB_SERVICE :: bool
  macro_APPLE :: bool
  macro_WIN32 :: bool
  macro_linux_uu :: bool
  macro_linux :: bool
  macro_uu_linux :: bool

text \<open>\<open>Settings::values\<close>, as far as this translation unit reads it.\<close>

record Values =
  enable_telemetry :: bool
  telemetry_endpoint_url :: string
  verify_endpoint_url :: string
  citra_username :: string
  citra_token :: string
  cpu_core :: s32
  resolution_factor :: "32 word"
  toggle_framelimit :: bool

text \<open>The strings of common/scm\_rev.h.\<close>

record ScmRev =
  g_scm_desc :: string
  g_scm_branch :: string
  g_scm_rev :: string
  g_build_date :: string
  g_build_name :: string

datatype CPUVendor = INTEL | AMD | OTHER

record CPUCaps =
  vendor :: CPUVendor
  cpu_string :: string
  brand_string :: string
  aes :: bool
  avx :: bool
  avx2 :: bool
  bmi1 :: bool
  bmi2 :: bool
  fma :: bool
  fma4 :: bool
  sse :: bool
  sse2 :: bool
  sse3 :: bool
  ssse3 :: bool
  sse4_1 :: bool
  sse4_2 :: bool

text \<open>
  \<open>Loader::ResultStatus\<close>: the source compares with \<open>Success\<close> only; every other
  enumerator is an \<open>ErrorCode\<close>.
\<close>

datatype ResultStatus = Success | ErrorCode nat

text \<open>
  What the session reads from outside: the build, the settings, the build metadata, the
  CPU capabilities, the answer of \<open>GetAppLoader().ReadTitle(program_name)\<close> (the status
  and what it left in \<open>program_name\<close>) and the configuration directory.
\<close>

record Env =
  build :: Build
  settings :: Values
  scm :: ScmRev
  cpu_caps :: CPUCaps
  ReadTitle :: "ResultStatus \<times> string"
  user_path :: string

subsection \<open>Fields, the field collection and the backends\<close>

datatype FieldType = NoneType | Session | App | UserSystem | UserConfig

text \<open>
  The value kinds \<open>AddField\<close> is instantiated with here: \<open>bool\<close>, \<open>u64\<close>, \<open>s64\<close>, \<open>int\<close>,
  \<open>float\<close> (kept as its bit pattern, never computed with) and strings (\<open>std::string\<close>
  and \<open>const char*\<close> alike).
\<close>

datatype FieldValue =
  BoolValue bool
| U64Value u64
| S64Value s64
| IntValue s32
| FloatValue "32 word"
| StringValue string

datatype Field = Field (ftype: FieldType) (fname: string) (fvalue: FieldValue)

text \<open>
  Modelled from the spec: \<open>Telemetry::FieldCollection\<close> (common/telemetry.h) is not in
  this translation unit. The collection is an insertion-ordered sequence; \<open>AddField\<close>
  appends and never fails or rejects a duplicate; \<open>Accept\<close> delivers every field in
  insertion order to the visitor.
\<close>

definition AddField :: "Field list \<Rightarrow> FieldType \<Rightarrow> string \<Rightarrow> FieldValue \<Rightarrow> Field list" where
  "AddField field_collection t n v = field_collection @ [Field t n v]"

text \<open>
  Modelled from the spec: the two visitors. \<open>Telemetry::NullVisitor\<close> ignores every
  field and its \<open>Complete\<close> does nothing; \<open>WebService::TelemetryJson\<close> is built from the
  endpoint URL, the username and the token, buffers what it visits, and its \<open>Complete\<close>
  submits the buffer.
\<close>

datatype Backend = NullVisitor | TelemetryJson string string string "Field list"

type_synonym Submission = "string \<times> string \<times> string \<times> Field list"

fun Visit :: "Backend \<Rightarrow> Field \<Rightarrow> Backend" where
  "Visit NullVisitor f = NullVisitor"
| "Visit (TelemetryJson url user tok buf) f = TelemetryJson url user tok (buf @ [f])"

definition Accept :: "Field list \<Rightarrow> Backend \<Rightarrow> Backend" where
  "Accept field_collection visitor = foldl Visit visitor field_collection"

fun Complete :: "Backend \<Rightarrow> Submission option" where
  "Complete NullVisitor = None"
| "Complete (TelemetryJson url user tok buf) = Some (url, user, tok, buf)"

text \<open>
  Reading the collection back: the values of the fields of a category and name, in
  insertion order.
\<close>

definition field_values :: "FieldType \<Rightarrow> string \<Rightarrow> Field list \<Rightarrow> FieldValue list" where
  "field_values t n field_collection =
     map fvalue (filter (\<lambda>f. ftype f = t \<and> fname f = n) field_collection)"

definition fields_named :: "string \<Rightarrow> Field list \<Rightarrow> Field list" where
  "fields_named n field_collection = filter (\<lambda>f. fname f = n) field_collection"

subsection \<open>Helpers of the session\<close>

fun CpuVendorToStr :: "CPUVendor \<Rightarrow> string" where
  "CpuVendorToStr INTEL = ''Intel''"
| "CpuVendorToStr AMD = ''Amd''"
| "CpuVendorToStr OTHER = ''Other''"

text \<open>
  \<open>std::strstr(haystack, needle)\<close> of the C library: the first position of the haystack
  at which the needle starts (the rest of the haystack from there), or a null pointer.
\<close>

fun strstr :: "string \<Rightarrow> string \<Rightarrow> string option" where
  "strstr [] needle = (if needle = [] then Some [] else None)"
| "strstr (c # cs) needle =
     (if prefix needle (c # cs) then Some (c # cs) else strstr cs needle)"

text \<open>The \<open>#ifdef\<close> chain that picks the \<open>OsPlatform\<close> string.\<close>

definition OsPlatform :: "Build \<Rightarrow> string" where
  "OsPlatform b =
     (if macro_APPLE b then ''Apple''
      else if macro_WIN32 b then ''Windows''
      else if macro_linux_uu b \<or> macro_linux b \<or> macro_uu_linux b then ''Linux''
      else ''Unknown'')"

subsection \<open>The session\<close>

record TelemetrySession =
  field_collection :: "Field list"
  backend :: "Backend option"

text \<open>
  The constructor. \<open>now\<close> is the reading of \<open>std::chrono::system_clock::now()\<close> in
  milliseconds since the epoch, as the \<open>s64\<close> the source stores.
\<close>

definition TelemetrySession_ctor :: "Env \<Rightarrow> s64 \<Rightarrow> World \<Rightarrow> TelemetrySession \<times> World" where
  "TelemetrySession_ctor env now w =
     (let b = (if ENABLE_WEB_SERVICE (build env) then
                 (if enable_telemetry (settings env) then
                    TelemetryJson (telemetry_endpoint_url (settings env))
                      (citra_username (settings env)) (citra_token (settings env)) []
                  else NullVisitor)
               else NullVisitor);
          (telemetry_id, w1) = GetTelemetryId (user_path env) w;
          fc = AddField [] NoneType ''TelemetryId'' (U64Value telemetry_id);
          init_time = now;
          fc = AddField fc Session ''Init_Time'' (S64Value init_time);
          (res, program_name) = ReadTitle env;
          fc = (if res = Success
                then AddField fc Session ''ProgramName'' (StringValue program_name) else fc);
          is_git_dirty = (strstr (g_scm_desc (scm env)) ''dirty'' \<noteq> None);
          fc = AddField fc App ''Git_IsDirty'' (BoolValue is_git_dirty);
          fc = AddField fc App ''Git_Branch'' (StringValue (g_scm_branch (scm env)));
          fc = AddField fc App ''Git_Revision'' (StringValue (g_scm_rev (scm env)));
          fc = AddField fc App ''BuildDate'' (StringValue (g_build_date (scm env)));
          fc = AddField fc App ''BuildName'' (StringValue (g_build_name (scm env)));
          caps = cpu_caps env;
          fc = AddField fc UserSystem ''CPU_Model'' (StringValue (cpu_string caps));
          fc = AddField fc UserSystem ''CPU_BrandString'' (StringValue (brand_string caps));
          fc = AddField fc UserSystem ''CPU_Vendor'' (StringValue (CpuVendorToStr (vendor caps)));
          fc = AddField fc UserSystem ''CPU_Extension_x64_AES'' (BoolValue (aes caps));
          fc = AddField fc UserSystem ''CPU_Extension_x64_AVX'' (BoolValue (avx caps));
          fc = AddField fc UserSystem ''CPU_Extension_x64_AVX2'' (BoolValue (avx2 caps));
          fc = AddField fc UserSystem ''CPU_Extension_x64_BMI1'' (BoolValue (bmi1 caps));
          fc = AddField fc UserSystem ''CPU_Extension_x64_BMI2'' (BoolValue (bmi2 caps));
          fc = AddField fc UserSystem ''CPU_Extension_x64_FMA'' (BoolValue (fma caps));
          fc = AddField fc UserSystem ''CPU_Extension_x64_FMA4'' (BoolValue (fma4 caps));
          fc = AddField fc UserSystem ''CPU_Extension_x64_SSE'' (BoolValue (sse caps));
          fc = AddField fc UserSystem ''CPU_Extension_x64_SSE2'' (BoolValue (sse2 caps));
          fc = AddField fc UserSystem ''CPU_Extension_x64_SSE3'' (BoolValue (sse3 caps));
          fc = AddField fc UserSystem ''CPU_Extension_x64_SSSE3'' (BoolValue (ssse3 caps));
          fc = AddField fc UserSystem ''CPU_Extension_x64_SSE41'' (BoolValue (sse4_1 caps));
          fc = AddField fc UserSystem ''CPU_Extension_x64_SSE42'' (BoolValue (sse4_2 caps));
          fc = AddField fc UserSystem ''OsPlatform'' (StringValue (OsPlatform (build env)));
          fc = AddField fc UserConfig ''Core_CpuCore'' (IntValue (cpu_core (settings env)));
          fc = AddField fc UserConfig ''Renderer_ResolutionFactor''
                 (FloatValue (resolution_factor (settings env)));
          fc = AddField fc UserConfig ''Renderer_ToggleFramelimit''
                 (BoolValue (toggle_framelimit (settings env)))
      in (\<lparr>field_collection = fc, backend = Some b\<rparr>, w1))"

text \<open>
  The destructor. Dereferencing a null \<open>backend\<close> is the one way it can go wrong; it
  yields the session as it is left (collection kept for inspection, \<open>backend\<close> reset)
  and what \<open>Complete\<close> submitted.
\<close>

datatype fault = NullBackend

definition TelemetrySession_dtor ::
  "TelemetrySession \<Rightarrow> s64 \<Rightarrow> fault + (TelemetrySession \<times> Submission option)" where
  "TelemetrySession_dtor s now =
     (let shutdown_time = now;
          fc = AddField (field_collection s) Session ''Shutdown_Time'' (S64Value shutdown_time)
      in case backend s of
           None \<Rightarrow> Inl NullBackend
         | Some b \<Rightarrow>
             (let b1 = Accept fc b;
                  sent = Complete b1
              in Inr (\<lparr>field_collection = fc, backend = None\<rparr>, sent)))"

text \<open>
  Construction followed at once by teardown; \<open>t_init\<close> and \<open>t_shutdown\<close> are the two
  clock readings.
\<close>

definition session_lifecycle ::
  "Env \<Rightarrow> s64 \<Rightarrow> s64 \<Rightarrow> World \<Rightarrow> fault + (TelemetrySession \<times> Submission option)" where
  "session_lifecycle env t_init t_shutdown w =
     TelemetrySession_dtor (fst (TelemetrySession_ctor env t_init w)) t_shutdown"

subsection \<open>Login verification\<close>

text \<open>
  The callback \<open>func\<close> is a \<open>std::function<void()>\<close> acting on some state \<open>'u\<close> of its
  own. It may be empty, and calling an empty one throws \<open>std::bad_function_call\<close>; a call
  of a non-empty one returns, or throws (leaving the state it reached), or never comes
  back.
\<close>

datatype exception = bad_function_call | thrown string

datatype 'u Called = Returns 'u | Throws exception 'u | Hangs

type_synonym 'u callback = "('u \<Rightarrow> 'u Called) option"

text \<open>
  The \<open>std::future<bool>\<close> is the task that \<open>std::async\<close> runs. Its outcome is what
  \<open>get()\<close> on the future gives: the boolean, or the exception that left the task (the
  lambda has no handler, so the future stores it), or nothing at all; with it come the
  state after and what the task itself did (each call that entered the callback, each
  contact with the network). \<open>WebService::VerifyLogin\<close> is not in this translation unit
  and is the parameter \<open>web_verify\<close>.
\<close>

datatype Event = CallbackInvoked | NetworkContact string

datatype 'u Outcome = Value bool 'u | Exception exception 'u | Blocks

type_synonym 'u Task = "'u \<Rightarrow> 'u Outcome \<times> Event list"

definition VerifyLogin ::
  "Build \<Rightarrow> (string \<Rightarrow> string \<Rightarrow> string \<Rightarrow> 'u callback \<Rightarrow> 'u Task) \<Rightarrow> Values \<Rightarrow>
   string \<Rightarrow> string \<Rightarrow> 'u callback \<Rightarrow> 'u Task" where
  "VerifyLogin b web_verify vals username token func =
     (if ENABLE_WEB_SERVICE b then
        web_verify username token (verify_endpoint_url vals) func
      else (\<lambda>u. case func of
              None \<Rightarrow> (Exception bad_function_call u, [])
            | Some f \<Rightarrow>
                (case f u of
                   Returns u' \<Rightarrow> (Value False u', [CallbackInvoked])
                 | Throws e u' \<Rightarrow> (Exception e u', [CallbackInvoked])
                 | Hangs \<Rightarrow> (Blocks, [CallbackInvoked]))))"

subsection \<open>Repeated calls and concrete hosts\<close>

text \<open>The host after \<open>n\<close> calls of \<open>GetTelemetryId\<close> in a row.\<close>

definition GetTelemetryId_calls :: "string \<Rightarrow> nat \<Rightarrow> World \<Rightarrow> World" where
  "GetTelemetryId_calls p n w = ((\<lambda>v. snd (GetTelemetryId p v)) ^^ n) w"

text \<open>
  Two hosts for running the model: one that holds an identifier file (the value 7) and
  refuses every open request, and an empty one that grants every request.
\<close>

definition stored_world :: World where
  "stored_world = \<lparr>files = Map.empty(''/cfg/telemetry_id'' \<mapsto> [7, 0, 0, 0, 0, 0, 0, 0]),
                    open_fails = (\<lambda>filename openmode. True), log_out = []\<rparr>"

definition fresh_world :: World where
  "fresh_world = \<lparr>files = Map.empty, open_fails = (\<lambda>filename openmode. False), log_out = []\<rparr>"

text \<open>
  Collaborators for running the session: a Linux build with the web service compiled in,
  telemetry switched off in the settings (with an endpoint and credentials present), a
  working tree with local changes, and a loader that cannot tell the title.
\<close>

definition sample_build :: Build where
  "sample_build = \<lparr>ENABLE_WEB_SERVICE = True, macro_APPLE = False, macro_WIN32 = False,
                    macro_linux_uu = True, macro_linux = True, macro_uu_linux = True\<rparr>"

definition sample_settings :: Values where
  "sample_settings = \<lparr>enable_telemetry = False,
                       telemetry_endpoint_url = ''https://services.example/api/telemetry'',
                       verify_endpoint_url = ''https://services.example/api/profile'',
                       citra_username = ''alice'', citra_token = ''s3cret'',
                       cpu_core = 1, resolution_factor = 0x3F800000, toggle_framelimit = True\<rparr>"

definition sample_scm :: ScmRev where
  "sample_scm = \<lparr>g_scm_desc = ''v0.1-42-g1a2b3c4-dirty'', g_scm_branch = ''master'',
                  g_scm_rev = ''1a2b3c4'', g_build_date = ''2018-01-13'', g_build_name = ''local''\<rparr>"

definition sample_caps :: CPUCaps where
  "sample_caps = \<lparr>vendor = AMD, cpu_string = ''AuthenticAMD'', brand_string = ''Ryzen'',
                   aes = True, avx = True, avx2 = True, bmi1 = True, bmi2 = True, fma = True,
                   fma4 = False, sse = True, sse2 = True, sse3 = True, ssse3 = True,
                   sse4_1 = True, sse4_2 = True\<rparr>"

definition sample_env :: Env where
  "sample_env = \<lparr>build = sample_build, settings = sample_settings, scm = sample_scm,
                  cpu_caps = sample_caps, ReadTitle = (ErrorCode 4, []), user_path = ''/cfg/''\<rparr>"

text \<open>
  For the login check: a build without the web service, a web service that would contact
  its endpoint and answer yes, a callback that counts its calls and one that counts and
  then throws.
\<close>

definition offline_build :: Build where
  "offline_build = sample_build\<lparr>ENABLE_WEB_SERVICE := False\<rparr>"

definition sample_web_verify :: "string \<Rightarrow> string \<Rightarrow> string \<Rightarrow> nat callback \<Rightarrow> nat Task" where
  "sample_web_verify username token url func =
     (\<lambda>u. (Value True u, [NetworkContact url]))"

definition counting_callback :: "nat callback" where
  "counting_callback = Some (\<lambda>n. Returns (Suc n))"

definition throwing_callback :: "nat callback" where
  "throwing_callback = Some (\<lambda>n. Throws (thrown ''callback failed'') (Suc n))"

section \<open>Properties of the identifier store\<close>

subsection \<open>Bytes of a 64-bit value\<close>

lemma upt8: "[0..<8] = [0, 1, 2, 3, 4, 5, 6, 7]"
  by (simp add: upt_rec)

lemma byte_step: "ucast (ucast x :: u8) OR push_bit 8 (drop_bit 8 x) = (x :: u64)"
proof (rule bit_word_eqI)
  fix n assume "n < LENGTH(64)"
  show "bit (ucast (ucast x :: u8) OR push_bit 8 (drop_bit 8 x)) n = bit x n"
    by (cases "n < 8") (auto simp add: bit_simps dest: bit_imp_le_length)
qed

lemma top_byte: "ucast (ucast (drop_bit 56 x) :: u8) = (drop_bit 56 x :: u64)"
  by (rule bit_word_eqI) (auto simp add: bit_simps dest: bit_imp_le_length)

lemma bytes_u64_u64_bytes: "bytes_u64 (u64_bytes v) = v"
proof -
  have s: "ucast (ucast (drop_bit k v) :: u8) OR push_bit 8 (drop_bit (8 + k) v) = drop_bit k v" for k
    using byte_step [of "drop_bit k v"] by (simp add: drop_bit_drop_bit add.commute)
  have "bytes_u64 (u64_bytes v) = ucast (ucast v :: u8) OR push_bit 8 (drop_bit 8 v)"
    unfolding u64_bytes_def upt8
    using s [of 48] s [of 40] s [of 32] s [of 24] s [of 16] s [of 8] by (simp add: top_byte)
  then show ?thesis by (simp add: byte_step)
qed

lemma length_u64_bytes: "length (u64_bytes v) = 8"
  by (simp add: u64_bytes_def)

lemma u64_bytes_zero: "u64_bytes 0 = [0, 0, 0, 0, 0, 0, 0, 0]"
  unfolding u64_bytes_def upt8 by simp

lemma GenerateTelemetryId_zero: "GenerateTelemetryId = 0"
  by (simp add: GenerateTelemetryId_def)

text \<open>What the read branch yields on a file holding the bytes of a value.\<close>

lemma read_stored:
  assumes "files w (telemetry_id_filename p) = Some (u64_bytes v)"
      and "\<not> open_fails w (telemetry_id_filename p) rb"
  shows "GetTelemetryId p w = (v, w)"
  using assms
  by (simp add: GetTelemetryId_def Exists_def IOFile_ctor_def ReadBytes_def Let_def
      length_u64_bytes bytes_u64_u64_bytes)

lemma read_refused:
  assumes "files w (telemetry_id_filename p) \<noteq> None"
      and "open_fails w (telemetry_id_filename p) rb"
  shows "GetTelemetryId p w =
           (0, LOG_ERROR w (''failed to open telemetry_id: '' @ telemetry_id_filename p))"
  using assms
  by (simp add: GetTelemetryId_def Exists_def IOFile_ctor_def Let_def)

lemma create_refused:
  assumes "files w (telemetry_id_filename p) = None"
      and "open_fails w (telemetry_id_filename p) wb"
  shows "GetTelemetryId p w =
           (0, LOG_ERROR w (''failed to open telemetry_id: '' @ telemetry_id_filename p))"
  using assms
  by (simp add: GetTelemetryId_def Exists_def IOFile_ctor_def Let_def)

lemma create_stored:
  assumes "files w (telemetry_id_filename p) = None"
      and "\<not> open_fails w (telemetry_id_filename p) wb"
  shows "GetTelemetryId p w =
           (GenerateTelemetryId,
            w\<lparr>files := (files w)(telemetry_id_filename p \<mapsto> u64_bytes GenerateTelemetryId)\<rparr>)"
  using assms
  by (simp add: GetTelemetryId_def Exists_def IOFile_ctor_def WriteBytes_def Let_def)

lemma regenerate_refused:
  assumes "open_fails w (telemetry_id_filename p) wb"
  shows "RegenerateTelemetryId p w =
           (0, LOG_ERROR w (''failed to open telemetry_id: '' @ telemetry_id_filename p))"
  using assms
  by (simp add: RegenerateTelemetryId_def IOFile_ctor_def Let_def)

lemma regenerate_stored:
  assumes "\<not> open_fails w (telemetry_id_filename p) wb"
  shows "RegenerateTelemetryId p w =
           (GenerateTelemetryId,
            w\<lparr>files := (files w)(telemetry_id_filename p \<mapsto> u64_bytes GenerateTelemetryId)\<rparr>)"
  using assms
  by (simp add: RegenerateTelemetryId_def IOFile_ctor_def WriteBytes_def Let_def)

lemma IsOpen_rb: "IsOpen (fst (IOFile_ctor w f rb)) = (\<not> open_fails w f rb \<and> files w f \<noteq> None)"
  by (simp add: IOFile_ctor_def)

lemma IsOpen_wb: "IsOpen (fst (IOFile_ctor w f wb)) = (\<not> open_fails w f wb)"
  by (simp add: IOFile_ctor_def)

subsection \<open>Open failures\<close>

text \<open>
  Claim C2. When the identifier file cannot be opened (\<open>IsOpen\<close> is false on the handle
  the function constructs: mode \<open>"rb"\<close> if the file exists, else \<open>"wb"\<close>, in
  \<open>GetTelemetryId\<close>; mode \<open>"wb"\<close> in \<open>RegenerateTelemetryId\<close>), the function appends the
  message "failed to open telemetry\_id: <filename>" to the log and returns zero; nothing
  else of the host changes, so after a failed \<open>RegenerateTelemetryId\<close> every file has the
  content it had before.
\<close>

theorem open_failure_returns_zero:
  "(\<not> IsOpen (fst (IOFile_ctor w (telemetry_id_filename p)
          (if Exists w (telemetry_id_filename p) then rb else wb))) \<longrightarrow>
      GetTelemetryId p w =
        (0, w\<lparr>log_out := log_out w @ [''failed to open telemetry_id: '' @ telemetry_id_filename p]\<rparr>))
   \<and> (\<not> IsOpen (fst (IOFile_ctor w (telemetry_id_filename p) wb)) \<longrightarrow>
      RegenerateTelemetryId p w =
        (0, w\<lparr>log_out := log_out w @ [''failed to open telemetry_id: '' @ telemetry_id_filename p]\<rparr>)
      \<and> files (snd (RegenerateTelemetryId p w)) = files w)"
proof (intro conjI impI)
  assume closed: "\<not> IsOpen (fst (IOFile_ctor w (telemetry_id_filename p)
          (if Exists w (telemetry_id_filename p) then rb else wb)))"
  show "GetTelemetryId p w =
        (0, w\<lparr>log_out := log_out w @ [''failed to open telemetry_id: '' @ telemetry_id_filename p]\<rparr>)"
  proof (cases "Exists w (telemetry_id_filename p)")
    case True
    with closed have "open_fails w (telemetry_id_filename p) rb"
      by (simp add: IsOpen_rb Exists_def)
    with True show ?thesis
      by (simp add: read_refused Exists_def LOG_ERROR_def)
  next
    case False
    with closed have "open_fails w (telemetry_id_filename p) wb"
      by (simp add: IsOpen_wb)
    with False show ?thesis
      by (simp add: create_refused Exists_def LOG_ERROR_def)
  qed
next
  assume "\<not> IsOpen (fst (IOFile_ctor w (telemetry_id_filename p) wb))"
  then have r: "open_fails w (telemetry_id_filename p) wb"
    by (simp add: IsOpen_wb)
  show "RegenerateTelemetryId p w =
        (0, w\<lparr>log_out := log_out w @ [''failed to open telemetry_id: '' @ telemetry_id_filename p]\<rparr>)"
    by (simp add: regenerate_refused [OF r] LOG_ERROR_def)
  show "files (snd (RegenerateTelemetryId p w)) = files w"
    by (simp add: regenerate_refused [OF r] LOG_ERROR_def)
qed

theorem open_failure_returns_zero_witness:
  "\<not> IsOpen (fst (IOFile_ctor stored_world ''/cfg/telemetry_id'' rb))
   \<and> \<not> IsOpen (fst (IOFile_ctor stored_world ''/cfg/telemetry_id'' wb))
   \<and> GetTelemetryId ''/cfg/'' stored_world =
       (0, stored_world\<lparr>log_out := [''failed to open telemetry_id: /cfg/telemetry_id'']\<rparr>)
   \<and> RegenerateTelemetryId ''/cfg/'' stored_world =
       (0, stored_world\<lparr>log_out := [''failed to open telemetry_id: /cfg/telemetry_id'']\<rparr>)
   \<and> files (snd (RegenerateTelemetryId ''/cfg/'' stored_world)) ''/cfg/telemetry_id''
       = Some [7, 0, 0, 0, 0, 0, 0, 0]"
proof -
  have n: "telemetry_id_filename ''/cfg/'' = ''/cfg/telemetry_id''"
    by (simp add: telemetry_id_filename_def)
  have e: "Exists stored_world ''/cfg/telemetry_id''"
    by (simp add: Exists_def stored_world_def)
  have c1: "\<not> IsOpen (fst (IOFile_ctor stored_world ''/cfg/telemetry_id'' rb))"
    by (simp add: IOFile_ctor_def stored_world_def)
  have c2: "\<not> IsOpen (fst (IOFile_ctor stored_world ''/cfg/telemetry_id'' wb))"
    by (simp add: IOFile_ctor_def stored_world_def)
  have l: "log_out stored_world = []" and f: "files stored_world ''/cfg/telemetry_id'' = Some [7, 0, 0, 0, 0, 0, 0, 0]"
    by (simp_all add: stored_world_def)
  show ?thesis
    using open_failure_returns_zero [of stored_world "''/cfg/''"] c1 c2 e l f
    unfolding n by simp
qed

text \<open>A call on a host whose identifier file holds the stored zero.\<close>

lemma get_on_zero_file:
  assumes "files w (telemetry_id_filename p) = Some (u64_bytes 0)"
  shows "fst (GetTelemetryId p w) = 0 \<and> files (snd (GetTelemetryId p w)) = files w"
proof (cases "open_fails w (telemetry_id_filename p) rb")
  case True
  with assms show ?thesis
    by (simp add: read_refused LOG_ERROR_def)
next
  case False
  with assms show ?thesis
    by (simp add: read_stored)
qed

lemma calls_on_zero_file:
  assumes "files w (telemetry_id_filename p) = Some (u64_bytes 0)"
  shows "files (GetTelemetryId_calls p n w) = files w"
proof (induction n)
  case 0
  show ?case by (simp add: GetTelemetryId_calls_def)
next
  case (Suc n)
  have "files (GetTelemetryId_calls p n w) (telemetry_id_filename p) = Some (u64_bytes 0)"
    using Suc.IH assms by simp
  from get_on_zero_file [OF this] Suc.IH show ?case
    by (simp add: GetTelemetryId_calls_def)
qed

lemma fresh_name: "telemetry_id_filename ''/cfg/'' = ''/cfg/telemetry_id''"
  by (simp add: telemetry_id_filename_def)

lemma fresh_opens: "IsOpen (fst (IOFile_ctor fresh_world f wb))"
  by (simp add: IOFile_ctor_def fresh_world_def)

lemma fresh_absent: "\<not> Exists fresh_world f"
  by (simp add: Exists_def fresh_world_def)

subsection \<open>Round trip\<close>

text \<open>
  Claim C3. Persistence round trip. For every 64-bit value \<open>X\<close>: once the identifier file
  has been opened with \<open>"wb"\<close> and the eight bytes of \<open>X\<close> written (the write path of
  \<open>RegenerateTelemetryId\<close>), a following \<open>GetTelemetryId\<close> on the same path that opens the
  file reads it and returns exactly \<open>X\<close>, leaving the host as it is. And after a
  \<open>RegenerateTelemetryId\<close> whose open succeeded, the following \<open>GetTelemetryId\<close> returns
  the value \<open>RegenerateTelemetryId\<close> returned and does not modify any file.
\<close>

theorem identifier_round_trip:
  "(IsOpen (fst (IOFile_ctor w (telemetry_id_filename p) wb)) \<longrightarrow>
      (let (file, w1) = IOFile_ctor w (telemetry_id_filename p) wb;
           w2 = WriteBytes w1 file (u64_bytes X)
       in IsOpen (fst (IOFile_ctor w2 (telemetry_id_filename p) rb)) \<longrightarrow>
            GetTelemetryId p w2 = (X, w2)))
   \<and> (IsOpen (fst (IOFile_ctor w (telemetry_id_filename p) wb)) \<longrightarrow>
        fst (GetTelemetryId p (snd (RegenerateTelemetryId p w))) = fst (RegenerateTelemetryId p w)
        \<and> files (snd (GetTelemetryId p (snd (RegenerateTelemetryId p w))))
            = files (snd (RegenerateTelemetryId p w)))"
proof (intro conjI impI)
  assume o: "IsOpen (fst (IOFile_ctor w (telemetry_id_filename p) wb))"
  then have nf: "\<not> open_fails w (telemetry_id_filename p) wb"
    by (simp add: IsOpen_wb)
  define w2 where "w2 = w\<lparr>files := (files w)(telemetry_id_filename p \<mapsto> u64_bytes X)\<rparr>"
  have st: "files w2 (telemetry_id_filename p) = Some (u64_bytes X)"
    by (simp add: w2_def)
  have "IsOpen (fst (IOFile_ctor w2 (telemetry_id_filename p) rb)) \<longrightarrow> GetTelemetryId p w2 = (X, w2)"
    using read_stored [OF st] by (simp add: IsOpen_rb)
  then show "let (file, w1) = IOFile_ctor w (telemetry_id_filename p) wb;
           w2 = WriteBytes w1 file (u64_bytes X)
       in IsOpen (fst (IOFile_ctor w2 (telemetry_id_filename p) rb)) \<longrightarrow>
            GetTelemetryId p w2 = (X, w2)"
    using nf by (simp add: IOFile_ctor_def WriteBytes_def w2_def)
  have z: "files (snd (RegenerateTelemetryId p w)) (telemetry_id_filename p) = Some (u64_bytes 0)"
    by (simp add: regenerate_stored [OF nf] GenerateTelemetryId_zero)
  show "fst (GetTelemetryId p (snd (RegenerateTelemetryId p w))) = fst (RegenerateTelemetryId p w)"
    using get_on_zero_file [OF z] by (simp add: regenerate_stored [OF nf] GenerateTelemetryId_zero)
  show "files (snd (GetTelemetryId p (snd (RegenerateTelemetryId p w))))
            = files (snd (RegenerateTelemetryId p w))"
    using get_on_zero_file [OF z] by simp
qed

theorem identifier_round_trip_witness:
  "IsOpen (fst (IOFile_ctor fresh_world ''/cfg/telemetry_id'' wb))
   \<and> IsOpen (fst (IOFile_ctor
        (fresh_world\<lparr>files := (files fresh_world)(''/cfg/telemetry_id'' \<mapsto> u64_bytes 0x1122334455667788)\<rparr>)
        ''/cfg/telemetry_id'' rb))
   \<and> GetTelemetryId ''/cfg/''
        (fresh_world\<lparr>files := (files fresh_world)(''/cfg/telemetry_id'' \<mapsto> u64_bytes 0x1122334455667788)\<rparr>)
      = (0x1122334455667788,
         fresh_world\<lparr>files := (files fresh_world)(''/cfg/telemetry_id'' \<mapsto> u64_bytes 0x1122334455667788)\<rparr>)
   \<and> fst (GetTelemetryId ''/cfg/'' (snd (RegenerateTelemetryId ''/cfg/'' fresh_world)))
      = fst (RegenerateTelemetryId ''/cfg/'' fresh_world)"
proof -
  have w: "IOFile_ctor fresh_world ''/cfg/telemetry_id'' wb
           = (IOFile ''/cfg/telemetry_id'' True,
              fresh_world\<lparr>files := (files fresh_world)(''/cfg/telemetry_id'' \<mapsto> [])\<rparr>)"
    by (simp add: IOFile_ctor_def fresh_world_def)
  have r: "IsOpen (fst (IOFile_ctor
        (fresh_world\<lparr>files := (files fresh_world)(''/cfg/telemetry_id'' \<mapsto> u64_bytes 0x1122334455667788)\<rparr>)
        ''/cfg/telemetry_id'' rb))"
    by (simp add: IOFile_ctor_def fresh_world_def)
  show ?thesis
    using identifier_round_trip [of fresh_world "''/cfg/''" "0x1122334455667788"] fresh_opens r
    unfolding fresh_name by (simp add: w WriteBytes_def Let_def)
qed

subsection \<open>Creation and idempotence\<close>

text \<open>
  Claim C4. If the identifier file is absent and the \<open>"wb"\<close> open succeeds,
  \<open>GetTelemetryId\<close> generates a value, creates the file holding the eight bytes of that
  value, and returns it; after any number \<open>n\<close> of further calls, the next call still
  returns that value, and the files are as the first call left them.
\<close>

theorem get_id_creates_then_stable:
  assumes "\<not> Exists w (telemetry_id_filename p)"
      and "IsOpen (fst (IOFile_ctor w (telemetry_id_filename p) wb))"
  shows "GetTelemetryId p w =
           (GenerateTelemetryId,
            w\<lparr>files := (files w)(telemetry_id_filename p \<mapsto> u64_bytes GenerateTelemetryId)\<rparr>)
         \<and> fst (GetTelemetryId p (GetTelemetryId_calls p n (snd (GetTelemetryId p w))))
             = fst (GetTelemetryId p w)
         \<and> files (snd (GetTelemetryId p (GetTelemetryId_calls p n (snd (GetTelemetryId p w)))))
             = files (snd (GetTelemetryId p w))"
proof -
  from assms have a: "files w (telemetry_id_filename p) = None"
    and nf: "\<not> open_fails w (telemetry_id_filename p) wb"
    by (simp_all add: Exists_def IsOpen_wb)
  note c = create_stored [OF a nf]
  have z: "files (snd (GetTelemetryId p w)) (telemetry_id_filename p) = Some (u64_bytes 0)"
    by (simp add: c GenerateTelemetryId_zero)
  have k: "files (GetTelemetryId_calls p n (snd (GetTelemetryId p w))) = files (snd (GetTelemetryId p w))"
    by (rule calls_on_zero_file [OF z])
  have "files (GetTelemetryId_calls p n (snd (GetTelemetryId p w))) (telemetry_id_filename p)
          = Some (u64_bytes 0)"
    using k z by simp
  from get_on_zero_file [OF this] k c show ?thesis
    by (simp add: GenerateTelemetryId_zero)
qed

theorem get_id_creates_then_stable_witness:
  "\<not> Exists fresh_world ''/cfg/telemetry_id''
   \<and> IsOpen (fst (IOFile_ctor fresh_world ''/cfg/telemetry_id'' wb))
   \<and> GetTelemetryId ''/cfg/'' fresh_world =
       (0, fresh_world\<lparr>files := (files fresh_world)(''/cfg/telemetry_id'' \<mapsto> [0, 0, 0, 0, 0, 0, 0, 0])\<rparr>)
   \<and> fst (GetTelemetryId ''/cfg/'' (GetTelemetryId_calls ''/cfg/'' 3 (snd (GetTelemetryId ''/cfg/'' fresh_world)))) = 0
   \<and> files (snd (GetTelemetryId ''/cfg/'' (GetTelemetryId_calls ''/cfg/'' 3 (snd (GetTelemetryId ''/cfg/'' fresh_world)))))
        ''/cfg/telemetry_id'' = Some [0, 0, 0, 0, 0, 0, 0, 0]"
proof -
  have a: "\<not> Exists fresh_world (telemetry_id_filename ''/cfg/'')"
    unfolding fresh_name by (rule fresh_absent)
  have b: "IsOpen (fst (IOFile_ctor fresh_world (telemetry_id_filename ''/cfg/'') wb))"
    unfolding fresh_name by (rule fresh_opens)
  note t = get_id_creates_then_stable [OF a b, of 3, unfolded fresh_name GenerateTelemetryId_zero u64_bytes_zero]
  from t have g: "GetTelemetryId ''/cfg/'' fresh_world =
       (0, fresh_world\<lparr>files := (files fresh_world)(''/cfg/telemetry_id'' \<mapsto> [0, 0, 0, 0, 0, 0, 0, 0])\<rparr>)"
    by (rule conjunct1)
  from t have v: "fst (GetTelemetryId ''/cfg/'' (GetTelemetryId_calls ''/cfg/'' 3 (snd (GetTelemetryId ''/cfg/'' fresh_world))))
       = fst (GetTelemetryId ''/cfg/'' fresh_world)"
    by (rule conjunct2 [THEN conjunct1])
  from t have f: "files (snd (GetTelemetryId ''/cfg/'' (GetTelemetryId_calls ''/cfg/'' 3 (snd (GetTelemetryId ''/cfg/'' fresh_world)))))
       = files (snd (GetTelemetryId ''/cfg/'' fresh_world))"
    by (rule conjunct2 [THEN conjunct2])
  show ?thesis
    using a b g unfolding v f fresh_name by simp
qed

subsection \<open>The generator\<close>

text \<open>
  Claim C8. \<open>GenerateTelemetryId\<close> is the 64-bit value 0; hence the identifier that
  \<open>GetTelemetryId\<close> persists when it creates the file, and the one a successful
  \<open>RegenerateTelemetryId\<close> persists, is zero: the value returned is 0 and the file holds
  eight zero bytes.
\<close>

theorem generated_identifier_is_zero:
  "GenerateTelemetryId = 0
   \<and> (\<not> Exists w (telemetry_id_filename p) \<and> IsOpen (fst (IOFile_ctor w (telemetry_id_filename p) wb)) \<longrightarrow>
        fst (GetTelemetryId p w) = 0
        \<and> files (snd (GetTelemetryId p w)) (telemetry_id_filename p) = Some [0, 0, 0, 0, 0, 0, 0, 0])
   \<and> (IsOpen (fst (IOFile_ctor w (telemetry_id_filename p) wb)) \<longrightarrow>
        fst (RegenerateTelemetryId p w) = 0
        \<and> files (snd (RegenerateTelemetryId p w)) (telemetry_id_filename p) = Some [0, 0, 0, 0, 0, 0, 0, 0])"
proof (intro conjI impI)
  show "GenerateTelemetryId = 0"
    by (simp add: GenerateTelemetryId_def)
next
  assume "\<not> Exists w (telemetry_id_filename p) \<and> IsOpen (fst (IOFile_ctor w (telemetry_id_filename p) wb))"
  then have a: "files w (telemetry_id_filename p) = None"
    and nf: "\<not> open_fails w (telemetry_id_filename p) wb"
    by (simp_all add: Exists_def IsOpen_wb)
  show "fst (GetTelemetryId p w) = 0"
    by (simp add: create_stored [OF a nf] GenerateTelemetryId_zero)
  show "files (snd (GetTelemetryId p w)) (telemetry_id_filename p) = Some [0, 0, 0, 0, 0, 0, 0, 0]"
    by (simp add: create_stored [OF a nf] GenerateTelemetryId_zero u64_bytes_zero)
next
  assume "IsOpen (fst (IOFile_ctor w (telemetry_id_filename p) wb))"
  then have nf: "\<not> open_fails w (telemetry_id_filename p) wb"
    by (simp add: IsOpen_wb)
  show "fst (RegenerateTelemetryId p w) = 0"
    by (simp add: regenerate_stored [OF nf] GenerateTelemetryId_zero)
  show "files (snd (RegenerateTelemetryId p w)) (telemetry_id_filename p) = Some [0, 0, 0, 0, 0, 0, 0, 0]"
    by (simp add: regenerate_stored [OF nf] GenerateTelemetryId_zero u64_bytes_zero)
qed

theorem generated_identifier_is_zero_witness:
  "GenerateTelemetryId = 0
   \<and> \<not> Exists fresh_world ''/cfg/telemetry_id''
   \<and> IsOpen (fst (IOFile_ctor fresh_world ''/cfg/telemetry_id'' wb))
   \<and> fst (GetTelemetryId ''/cfg/'' fresh_world) = 0
   \<and> files (snd (GetTelemetryId ''/cfg/'' fresh_world)) ''/cfg/telemetry_id'' = Some [0, 0, 0, 0, 0, 0, 0, 0]
   \<and> fst (RegenerateTelemetryId ''/cfg/'' fresh_world) = 0
   \<and> files (snd (RegenerateTelemetryId ''/cfg/'' fresh_world)) ''/cfg/telemetry_id'' = Some [0, 0, 0, 0, 0, 0, 0, 0]"
  using generated_identifier_is_zero [of fresh_world "''/cfg/''"] fresh_opens [of "''/cfg/telemetry_id''"]
    fresh_absent [of "''/cfg/telemetry_id''"]
  unfolding fresh_name by simp

section \<open>Properties of the session\<close>

subsection \<open>What the constructor leaves behind\<close>

lemma ctor_fields:
  "field_collection (fst (TelemetrySession_ctor env now w)) =
     [Field NoneType ''TelemetryId'' (U64Value (fst (GetTelemetryId (user_path env) w))),
      Field Session ''Init_Time'' (S64Value now)]
     @ (if fst (ReadTitle env) = Success
        then [Field Session ''ProgramName'' (StringValue (snd (ReadTitle env)))] else [])
     @ [Field App ''Git_IsDirty'' (BoolValue (strstr (g_scm_desc (scm env)) ''dirty'' \<noteq> None)),
        Field App ''Git_Branch'' (StringValue (g_scm_branch (scm env))),
        Field App ''Git_Revision'' (StringValue (g_scm_rev (scm env))),
        Field App ''BuildDate'' (StringValue (g_build_date (scm env))),
        Field App ''BuildName'' (StringValue (g_build_name (scm env))),
        Field UserSystem ''CPU_Model'' (StringValue (cpu_string (cpu_caps env))),
        Field UserSystem ''CPU_BrandString'' (StringValue (brand_string (cpu_caps env))),
        Field UserSystem ''CPU_Vendor'' (StringValue (CpuVendorToStr (vendor (cpu_caps env)))),
        Field UserSystem ''CPU_Extension_x64_AES'' (BoolValue (aes (cpu_caps env))),
        Field UserSystem ''CPU_Extension_x64_AVX'' (BoolValue (avx (cpu_caps env))),
        Field UserSystem ''CPU_Extension_x64_AVX2'' (BoolValue (avx2 (cpu_caps env))),
        Field UserSystem ''CPU_Extension_x64_BMI1'' (BoolValue (bmi1 (cpu_caps env))),
        Field UserSystem ''CPU_Extension_x64_BMI2'' (BoolValue (bmi2 (cpu_caps env))),
        Field UserSystem ''CPU_Extension_x64_FMA'' (BoolValue (fma (cpu_caps env))),
        Field UserSystem ''CPU_Extension_x64_FMA4'' (BoolValue (fma4 (cpu_caps env))),
        Field UserSystem ''CPU_Extension_x64_SSE'' (BoolValue (sse (cpu_caps env))),
        Field UserSystem ''CPU_Extension_x64_SSE2'' (BoolValue (sse2 (cpu_caps env))),
        Field UserSystem ''CPU_Extension_x64_SSE3'' (BoolValue (sse3 (cpu_caps env))),
        Field UserSystem ''CPU_Extension_x64_SSSE3'' (BoolValue (ssse3 (cpu_caps env))),
        Field UserSystem ''CPU_Extension_x64_SSE41'' (BoolValue (sse4_1 (cpu_caps env))),
        Field UserSystem ''CPU_Extension_x64_SSE42'' (BoolValue (sse4_2 (cpu_caps env))),
        Field UserSystem ''OsPlatform'' (StringValue (OsPlatform (build env))),
        Field UserConfig ''Core_CpuCore'' (IntValue (cpu_core (settings env))),
        Field UserConfig ''Renderer_ResolutionFactor'' (FloatValue (resolution_factor (settings env))),
        Field UserConfig ''Renderer_ToggleFramelimit'' (BoolValue (toggle_framelimit (settings env)))]"
  by (simp add: TelemetrySession_ctor_def AddField_def Let_def split_def)

lemma ctor_backend:
  "backend (fst (TelemetrySession_ctor env now w)) =
     Some (if ENABLE_WEB_SERVICE (build env) then
             (if enable_telemetry (settings env) then
                TelemetryJson (telemetry_endpoint_url (settings env))
                  (citra_username (settings env)) (citra_token (settings env)) []
              else NullVisitor)
           else NullVisitor)"
  by (simp add: TelemetrySession_ctor_def Let_def split_def)

lemma ctor_world:
  "snd (TelemetrySession_ctor env now w) = snd (GetTelemetryId (user_path env) w)"
  by (simp add: TelemetrySession_ctor_def Let_def split_def)

lemma strstr_sublist: "(strstr haystack needle \<noteq> None) = sublist needle haystack"
  by (induction haystack) (auto simp: sublist_Cons_right)

lemma dtor_after_ctor:
  "session_lifecycle env t_init t_shutdown w =
     Inr (\<lparr>field_collection = field_collection (fst (TelemetrySession_ctor env t_init w))
             @ [Field Session ''Shutdown_Time'' (S64Value t_shutdown)],
           backend = None\<rparr>,
          Complete (Accept (field_collection (fst (TelemetrySession_ctor env t_init w))
             @ [Field Session ''Shutdown_Time'' (S64Value t_shutdown)])
             (the (backend (fst (TelemetrySession_ctor env t_init w))))))"
  by (simp add: session_lifecycle_def TelemetrySession_dtor_def AddField_def Let_def ctor_backend)

lemma sample_name: "user_path sample_env = ''/cfg/''"
  by (simp add: sample_env_def)

subsection \<open>Backend selection\<close>

text \<open>
  Claim C5. When telemetry is disabled in the settings, or when the web service is not
  compiled in, the constructed session's backend is the discarding \<open>NullVisitor\<close>,
  whatever the endpoint URL, the username, the token and every other input are.
\<close>

theorem disabled_telemetry_null_backend:
  "\<not> enable_telemetry (settings env) \<or> \<not> ENABLE_WEB_SERVICE (build env) \<Longrightarrow>
     backend (fst (TelemetrySession_ctor env now w)) = Some NullVisitor"
  by (auto simp add: ctor_backend)

theorem disabled_telemetry_null_backend_witness:
  "\<not> enable_telemetry (settings sample_env)
   \<and> telemetry_endpoint_url (settings sample_env) = ''https://services.example/api/telemetry''
   \<and> citra_username (settings sample_env) = ''alice''
   \<and> citra_token (settings sample_env) = ''s3cret''
   \<and> backend (fst (TelemetrySession_ctor sample_env 1514764800000 fresh_world)) = Some NullVisitor"
proof -
  have d: "\<not> enable_telemetry (settings sample_env)"
    by (simp add: sample_env_def sample_settings_def)
  then have "\<not> enable_telemetry (settings sample_env) \<or> \<not> ENABLE_WEB_SERVICE (build sample_env)"
    by (rule disjI1)
  from disabled_telemetry_null_backend [OF this] d show ?thesis
    by (simp add: sample_env_def sample_settings_def)
qed

subsection \<open>The program name\<close>

text \<open>
  Claim C6. When \<open>ReadTitle\<close> does not answer \<open>Success\<close>, the collection holds no field
  named \<open>ProgramName\<close>; when it answers \<open>Success\<close>, it holds exactly one, of category
  \<open>Session\<close>, with the title as its value. The constructor has no failing exit: it
  yields a session for every loader answer, and the answer influences nothing but that
  one field (the other fields, the backend and the host are those of any other answer).
\<close>

theorem program_name_field:
  "(fst (ReadTitle env) \<noteq> Success \<longrightarrow>
      fields_named ''ProgramName'' (field_collection (fst (TelemetrySession_ctor env now w))) = [])
   \<and> (fst (ReadTitle env) = Success \<longrightarrow>
      fields_named ''ProgramName'' (field_collection (fst (TelemetrySession_ctor env now w)))
        = [Field Session ''ProgramName'' (StringValue (snd (ReadTitle env)))])
   \<and> filter (\<lambda>f. fname f \<noteq> ''ProgramName'') (field_collection (fst (TelemetrySession_ctor env now w)))
      = filter (\<lambda>f. fname f \<noteq> ''ProgramName'')
          (field_collection (fst (TelemetrySession_ctor (env\<lparr>ReadTitle := answer\<rparr>) now w)))
   \<and> backend (fst (TelemetrySession_ctor env now w))
      = backend (fst (TelemetrySession_ctor (env\<lparr>ReadTitle := answer\<rparr>) now w))
   \<and> snd (TelemetrySession_ctor env now w)
      = snd (TelemetrySession_ctor (env\<lparr>ReadTitle := answer\<rparr>) now w)"
  by (simp add: ctor_fields fields_named_def ctor_backend ctor_world)

theorem program_name_field_witness:
  "fst (ReadTitle sample_env) \<noteq> Success
   \<and> fields_named ''ProgramName''
        (field_collection (fst (TelemetrySession_ctor sample_env 1514764800000 fresh_world))) = []
   \<and> fst (ReadTitle (sample_env\<lparr>ReadTitle := (Success, ''Homebrew'')\<rparr>)) = Success
   \<and> fields_named ''ProgramName''
        (field_collection (fst (TelemetrySession_ctor
           (sample_env\<lparr>ReadTitle := (Success, ''Homebrew'')\<rparr>) 1514764800000 fresh_world)))
      = [Field Session ''ProgramName'' (StringValue ''Homebrew'')]"
proof -
  have a: "fst (ReadTitle sample_env) \<noteq> Success"
    by (simp add: sample_env_def)
  have b: "fst (ReadTitle (sample_env\<lparr>ReadTitle := (Success, ''Homebrew'')\<rparr>)) = Success"
    by simp
  show ?thesis
    using program_name_field [of sample_env 1514764800000 fresh_world]
      program_name_field [of "sample_env\<lparr>ReadTitle := (Success, ''Homebrew'')\<rparr>" 1514764800000 fresh_world]
      a b
    by simp
qed


subsection \<open>Platform and source-control state\<close>

text \<open>
  Claim C9. The collection of a constructed session holds exactly one field named
  \<open>OsPlatform\<close>; its category is \<open>UserSystem\<close> and its value is the string picked by the
  preprocessor chain from the build alone, one of "Apple", "Windows", "Linux", "Unknown".
\<close>

theorem os_platform_field:
  "fields_named ''OsPlatform'' (field_collection (fst (TelemetrySession_ctor env now w)))
     = [Field UserSystem ''OsPlatform'' (StringValue (OsPlatform (build env)))]
   \<and> (OsPlatform (build env) = ''Apple'' \<or> OsPlatform (build env) = ''Windows''
      \<or> OsPlatform (build env) = ''Linux'' \<or> OsPlatform (build env) = ''Unknown'')"
  by (simp add: ctor_fields fields_named_def OsPlatform_def)

text \<open>
  Claim C10. The collection of a constructed session holds exactly one field named
  \<open>Git_IsDirty\<close>, of category \<open>App\<close>, whose boolean value is true if and only if the
  description string \<open>g_scm_desc\<close> contains "dirty" as a substring; the value is the
  outcome of the \<open>strstr\<close> search, not a flag handed over by the build metadata.
\<close>

theorem git_is_dirty_field:
  "fields_named ''Git_IsDirty'' (field_collection (fst (TelemetrySession_ctor env now w)))
     = [Field App ''Git_IsDirty''
          (BoolValue (\<exists>before after. g_scm_desc (scm env) = before @ ''dirty'' @ after))]
   \<and> (\<exists>before after. g_scm_desc (scm env) = before @ ''dirty'' @ after)
       = (strstr (g_scm_desc (scm env)) ''dirty'' \<noteq> None)"
proof -
  have d: "(strstr (g_scm_desc (scm env)) ''dirty'' \<noteq> None)
             = (\<exists>before after. g_scm_desc (scm env) = before @ ''dirty'' @ after)"
    by (simp only: strstr_sublist sublist_def)
  have f: "fields_named ''Git_IsDirty'' (field_collection (fst (TelemetrySession_ctor env now w)))
     = [Field App ''Git_IsDirty'' (BoolValue (strstr (g_scm_desc (scm env)) ''dirty'' \<noteq> None))]"
    by (simp add: ctor_fields fields_named_def del: not_None_eq)
  show ?thesis
    unfolding f d by (rule conjI) (rule refl)+
qed

subsection \<open>Construction followed by teardown\<close>

text \<open>
  Claim C1, as it stands, at a clock that was set back by one second between
  construction and teardown: the session is torn down without fault, \<open>Init_Time\<close> is
  the first reading and \<open>Shutdown_Time\<close> the second, and the first is the greater.
\<close>

theorem lifecycle_clock_counterexample:
  "\<not> isl (session_lifecycle sample_env 1514764800000 1514764799000 fresh_world)
   \<and> field_values Session ''Init_Time''
        (field_collection (fst (projr (session_lifecycle sample_env 1514764800000 1514764799000 fresh_world))))
       = [S64Value 1514764800000]
   \<and> field_values Session ''Shutdown_Time''
        (field_collection (fst (projr (session_lifecycle sample_env 1514764800000 1514764799000 fresh_world))))
       = [S64Value 1514764799000]
   \<and> \<not> sint (1514764800000 :: s64) \<le> sint (1514764799000 :: s64)"
  by (simp add: dtor_after_ctor ctor_fields field_values_def)

text \<open>
  Claim C1, amended. Construction followed at once by teardown ends without fault, and
  the collection then holds exactly one \<open>NoneType\<close> field \<open>TelemetryId\<close> (the identifier
  \<open>GetTelemetryId\<close> returned), exactly one \<open>Session\<close> field \<open>Init_Time\<close> (the clock
  reading of the constructor) and exactly one field named \<open>Shutdown_Time\<close>, of category
  \<open>Session\<close> (the clock reading of the destructor). If the reading of the destructor is
  not earlier than that of the constructor, as signed 64-bit millisecond counts, the
  \<open>Init_Time\<close> value is at most the \<open>Shutdown_Time\<close> value.
\<close>

theorem lifecycle_fields:
  "\<exists>s sent. session_lifecycle env t_init t_shutdown w = Inr (s, sent)
     \<and> field_values NoneType ''TelemetryId'' (field_collection s)
         = [U64Value (fst (GetTelemetryId (user_path env) w))]
     \<and> field_values Session ''Init_Time'' (field_collection s) = [S64Value t_init]
     \<and> field_values Session ''Shutdown_Time'' (field_collection s) = [S64Value t_shutdown]
     \<and> fields_named ''Shutdown_Time'' (field_collection s)
         = [Field Session ''Shutdown_Time'' (S64Value t_shutdown)]
     \<and> (sint t_init \<le> sint t_shutdown \<longrightarrow>
          (\<forall>i e. S64Value i \<in> set (field_values Session ''Init_Time'' (field_collection s)) \<and>
                 S64Value e \<in> set (field_values Session ''Shutdown_Time'' (field_collection s))
                 \<longrightarrow> sint i \<le> sint e))"
proof -
  define fc where "fc = field_collection (fst (TelemetrySession_ctor env t_init w))
                          @ [Field Session ''Shutdown_Time'' (S64Value t_shutdown)]"
  define sent where "sent = Complete (Accept fc (the (backend (fst (TelemetrySession_ctor env t_init w)))))"
  have run: "session_lifecycle env t_init t_shutdown w = Inr (\<lparr>field_collection = fc, backend = None\<rparr>, sent)"
    unfolding fc_def sent_def by (rule dtor_after_ctor)
  have ident: "field_values NoneType ''TelemetryId'' fc = [U64Value (fst (GetTelemetryId (user_path env) w))]"
    by (simp add: fc_def ctor_fields field_values_def)
  have init: "field_values Session ''Init_Time'' fc = [S64Value t_init]"
    by (simp add: fc_def ctor_fields field_values_def)
  have shut: "field_values Session ''Shutdown_Time'' fc = [S64Value t_shutdown]"
    by (simp add: fc_def ctor_fields field_values_def)
  have once: "fields_named ''Shutdown_Time'' fc = [Field Session ''Shutdown_Time'' (S64Value t_shutdown)]"
    by (simp add: fc_def ctor_fields fields_named_def)
  have ordered: "sint t_init \<le> sint t_shutdown \<longrightarrow>
          (\<forall>i e. S64Value i \<in> set (field_values Session ''Init_Time'' fc) \<and>
              S64Value e \<in> set (field_values Session ''Shutdown_Time'' fc) \<longrightarrow> sint i \<le> sint e)"
    unfolding init shut by simp
  from run ident init shut once ordered show ?thesis
    by simp
qed

theorem lifecycle_fields_witness:
  "sint (1514764800000 :: s64) \<le> sint (1514764800250 :: s64)
   \<and> \<not> isl (session_lifecycle sample_env 1514764800000 1514764800250 fresh_world)
   \<and> field_values NoneType ''TelemetryId''
        (field_collection (fst (projr (session_lifecycle sample_env 1514764800000 1514764800250 fresh_world))))
       = [U64Value 0]
   \<and> field_values Session ''Init_Time''
        (field_collection (fst (projr (session_lifecycle sample_env 1514764800000 1514764800250 fresh_world))))
       = [S64Value 1514764800000]
   \<and> field_values Session ''Shutdown_Time''
        (field_collection (fst (projr (session_lifecycle sample_env 1514764800000 1514764800250 fresh_world))))
       = [S64Value 1514764800250]"
proof -
  have le: "sint (1514764800000 :: s64) \<le> sint (1514764800250 :: s64)"
    by simp
  have z: "fst (GetTelemetryId ''/cfg/'' fresh_world) = 0"
    using create_stored [of fresh_world "''/cfg/''"]
    by (simp add: fresh_world_def GenerateTelemetryId_zero)
  from lifecycle_fields [of sample_env 1514764800000 1514764800250 fresh_world] le z show ?thesis
    by (auto simp add: sample_name)
qed

section \<open>Login verification without the web service\<close>

text \<open>
  Claim C7, as it stands, at an empty callback and at a throwing one, without
  \<open>ENABLE_WEB_SERVICE\<close>: with the empty callback nothing is invoked and the future holds
  \<open>bad_function_call\<close>; with the throwing one the callback is entered once and the future
  holds what it threw. In neither case does the future resolve to false.
\<close>

theorem verify_login_callback_counterexample:
  "VerifyLogin offline_build sample_web_verify sample_settings ''alice'' ''s3cret'' None 0
     = (Exception bad_function_call 0, [])
   \<and> VerifyLogin offline_build sample_web_verify sample_settings ''alice'' ''s3cret''
       throwing_callback 0
     = (Exception (thrown ''callback failed'') 1, [CallbackInvoked])"
  by (simp add: VerifyLogin_def offline_build_def throwing_callback_def)

text \<open>
  Claim C7, amended. Without \<open>ENABLE_WEB_SERVICE\<close>, for every username and token and
  every non-empty callback whose call returns normally, the task behind the returned
  future calls the callback exactly once (the state after is the one the call returned,
  the task's own trace is the single event \<open>CallbackInvoked\<close>) and resolves to \<open>False\<close>.
  For every callback whatsoever the task enters a non-empty callback once and an empty
  one never, and contacts no network: the trace holds no other event and \<open>web_verify\<close>
  is not used.
\<close>

theorem verify_login_without_web_service:
  "\<not> ENABLE_WEB_SERVICE b \<Longrightarrow>
     (func = Some f \<and> f u = Returns u' \<longrightarrow>
        VerifyLogin b web_verify vals username token func u = (Value False u', [CallbackInvoked]))
     \<and> length (filter (\<lambda>e. e = CallbackInvoked)
           (snd (VerifyLogin b web_verify vals username token func u)))
         = (if func = None then 0 else 1)
     \<and> filter (\<lambda>e. e \<noteq> CallbackInvoked)
           (snd (VerifyLogin b web_verify vals username token func u)) = []"
  by (simp add: VerifyLogin_def split: option.split Called.split)

theorem verify_login_without_web_service_witness:
  "\<not> ENABLE_WEB_SERVICE offline_build
   \<and> counting_callback = Some (\<lambda>n. Returns (Suc n))
   \<and> VerifyLogin offline_build sample_web_verify sample_settings ''alice'' ''s3cret''
        counting_callback 0
      = (Value False 1, [CallbackInvoked])"
proof -
  have off: "\<not> ENABLE_WEB_SERVICE offline_build"
    by (simp add: offline_build_def)
  have c: "counting_callback = Some (\<lambda>n. Returns (Suc n))"
    by (simp add: counting_callback_def)
  from verify_login_without_web_service
         [OF off, of counting_callback "\<lambda>n. Returns (Suc n)" 0 1 sample_web_verify
            sample_settings "''alice''" "''s3cret''"] off c
  show ?thesis
    by simp
qed

end
